theory Spec2Isabelle
  imports Main "HOL-Library.Sublist"
begin

section \<open>The platform objects used by \<open>data.ts\<close>\<close>

text \<open>
  \<open>packages/remix-server-runtime/data.ts\<close> works on the Fetch objects \<open>Headers\<close>,
  \<open>Request\<close>, \<open>Response\<close> and on \<open>URL\<close> with its \<open>URLSearchParams\<close>. They are
  modelled by what the file observes of them.

  The header list of a \<open>Headers\<close> object has one entry per header: its name and its
  (combined) value. Names are compared case-insensitively, that is after
  ASCII-lowercasing. Setting a header in a header list replaces every entry of the name
  by one new entry.
\<close>

definition ascii_lower :: "char \<Rightarrow> char" where
  "ascii_lower c =
     (case map_of (zip ''ABCDEFGHIJKLMNOPQRSTUVWXYZ'' ''abcdefghijklmnopqrstuvwxyz'') c of
        None \<Rightarrow> c
      | Some l \<Rightarrow> l)"

type_synonym headers = "(string \<times> string) list"

definition same_header_name :: "string \<Rightarrow> string \<Rightarrow> bool" where
  "same_header_name a b \<longleftrightarrow> map ascii_lower a = map ascii_lower b"

definition headers_get :: "headers \<Rightarrow> string \<Rightarrow> string option" where
  "headers_get h name = map_option snd (find (\<lambda>p. same_header_name (fst p) name) h)"

definition header_list_set :: "headers \<Rightarrow> string \<Rightarrow> string \<Rightarrow> headers" where
  "header_list_set h name v =
     (map ascii_lower name, v) # filter (\<lambda>p. \<not> same_header_name (fst p) name) h"

text \<open>
  \<open>Request\<close> and \<open>Response\<close> share headers and a body. A response adds its status and the
  guard of its \<open>Headers\<close> object: the headers of a response that the platform made
  (\<open>fetch()\<close>, \<open>Response.error()\<close>, \<open>Response.redirect()\<close>) are immutable, those of a
  response built with \<open>new Response\<close> are not. A request adds its method, its URL and
  whether its body has been read (\<open>bodyUsed\<close>).
\<close>

record message =
  headers :: headers
  body :: "string option"

record response = message +
  status :: nat
  statusText :: string
  headers_immutable :: bool

text \<open>
  \<open>response.headers.set(name, value)\<close>: a \<open>TypeError\<close> on immutable headers (\<open>Inl\<close> with its
  message, whose wording is the platform's), the response with the header set otherwise.
\<close>

definition headers_set :: "response \<Rightarrow> string \<Rightarrow> string \<Rightarrow> string + response" where
  "headers_set r name v =
     (if headers_immutable r then Inl ''Headers are immutable''
      else Inr (r\<lparr>headers := header_list_set (headers r) name v\<rparr>))"

text \<open>
  A URL is kept in parsed form: the text before the query, the query as the list of
  name/value pairs that \<open>url.searchParams\<close> iterates over, and the fragment. Reading
  \<open>new URL(request.url)\<close> and writing \<open>new Request(url.href, ...)\<close> are inverse to each other
  on this form.
\<close>

type_synonym search_params = "(string \<times> string) list"

record url =
  origin_path :: string
  searchParams :: search_params
  hash :: string

record request = message +
  method' :: string
  url :: url
  bodyUsed :: bool

subsection \<open>\<open>URLSearchParams\<close>\<close>

definition getAll :: "string \<Rightarrow> search_params \<Rightarrow> string list" where
  "getAll name ps = map snd (filter (\<lambda>p. fst p = name) ps)"

definition delete :: "string \<Rightarrow> search_params \<Rightarrow> search_params" where
  "delete name ps = filter (\<lambda>p. fst p \<noteq> name) ps"

definition append :: "string \<Rightarrow> string \<Rightarrow> search_params \<Rightarrow> search_params" where
  "append name v ps = ps @ [(name, v)]"

subsection \<open>The constructors \<open>new Response(null, {status})\<close> and \<open>new Request(input, init)\<close>\<close>

definition new_Response :: "nat \<Rightarrow> response" where
  "new_Response st =
     \<lparr> headers = [], body = None, status = st, statusText = [], headers_immutable = False \<rparr>"

text \<open>
  \<open>new Request(url.href, request)\<close>: the new request takes its URL from the first argument
  and every other member from the second. The constructor throws a \<open>TypeError\<close> (\<open>Inl\<close> with
  its message, whose wording is the platform's) when the second argument has a body and
  its method is \<open>GET\<close> or \<open>HEAD\<close>, and when its body has already been read. The body of the
  new request has not been read.
\<close>

definition is_get_or_head :: "string \<Rightarrow> bool" where
  "is_get_or_head m \<longleftrightarrow> map ascii_lower m = ''get'' \<or> map ascii_lower m = ''head''"

definition new_Request :: "url \<Rightarrow> request \<Rightarrow> string + request" where
  "new_Request u init =
     (if body init \<noteq> None \<and> is_get_or_head (method' init) then
        Inl ''Request with GET/HEAD method cannot have body''
      else if body init \<noteq> None \<and> bodyUsed init then
        Inl ''Cannot construct a Request with a body that has already been used''
      else
        Inr \<lparr> headers = headers init, body = body init, method' = method' init, url = u,
              bodyUsed = False \<rparr>)"

subsection \<open>The regular expression \<open>/\<bslash>bapplication\<bslash>/json\<bslash>b/\<close>\<close>

text \<open>
  \<open>\<bslash>w\<close> is an ASCII letter, a digit or the underscore. The assertion \<open>\<bslash>b\<close> holds
  between two positions of the input when exactly one of the neighbouring characters
  is a word character; the start and the end of the input count as non-word.
\<close>

definition is_word_char :: "char \<Rightarrow> bool" where
  "is_word_char c \<longleftrightarrow>
     c \<in> set ''abcdefghijklmnopqrstuvwxyzABCDEFGHIJKLMNOPQRSTUVWXYZ0123456789_''"

definition is_word_at :: "char option \<Rightarrow> bool" where
  "is_word_at c = (case c of None \<Rightarrow> False | Some x \<Rightarrow> is_word_char x)"

definition word_boundary :: "char option \<Rightarrow> char option \<Rightarrow> bool" where
  "word_boundary left right \<longleftrightarrow> is_word_at left \<noteq> is_word_at right"

definition first_char :: "string \<Rightarrow> char option" where
  "first_char s = (case s of [] \<Rightarrow> None | c # _ \<Rightarrow> Some c)"

definition last_char :: "char option \<Rightarrow> string \<Rightarrow> char option" where
  "last_char prev s = (if s = [] then prev else Some (last s))"

text \<open>
  \<open>matches_here lit prev s\<close>: the pattern \<open>\<bslash>b lit \<bslash>b\<close> matches at the current position,
  where \<open>prev\<close> is the character before the position and \<open>s\<close> the input from it on.
  \<open>regex_search\<close> tries every position from left to right, as \<open>RegExp.prototype.test\<close>
  does for a pattern without flags.
\<close>

definition matches_here :: "string \<Rightarrow> char option \<Rightarrow> string \<Rightarrow> bool" where
  "matches_here lit prev s \<longleftrightarrow>
     word_boundary prev (first_char s) \<and> prefix lit s \<and>
     word_boundary (last_char prev lit) (first_char (drop (length lit) s))"

fun regex_search :: "string \<Rightarrow> char option \<Rightarrow> string \<Rightarrow> bool" where
  "regex_search lit prev [] = matches_here lit prev []"
| "regex_search lit prev (c # cs) =
     (matches_here lit prev (c # cs) \<or> regex_search lit (Some c) cs)"

definition test_application_json :: "string \<Rightarrow> bool" where
  "test_application_json s = regex_search ''application/json'' None s"

text \<open>
  The reading of the claim's words "contains application/json as a whole word": the
  text occurs in the value, and neither the character before the occurrence nor the
  character after it is a word character.
\<close>

definition contains_whole_word :: "string \<Rightarrow> string \<Rightarrow> bool" where
  "contains_whole_word w s \<longleftrightarrow>
     (\<exists>pre post. s = pre @ w @ post \<and>
        \<not> is_word_at (last_char None pre) \<and> \<not> is_word_at (first_char post))"

section \<open>\<open>extractData\<close>\<close>

text \<open>
  \<open>extractData\<close> returns the promise of \<open>response.json()\<close> or of \<open>response.text()\<close>. The
  model returns which of the two body readers was called, and on which response.
\<close>

datatype body_read = ResponseJson response | ResponseText response

text \<open>
  \<open>headers.get\<close> gives \<open>null\<close> for a missing header; \<open>null\<close> and the empty string are
  falsy, so the regular expression is only tried on a non-empty value.
\<close>

definition extractData :: "response \<Rightarrow> body_read" where
  "extractData r =
     (let contentType = headers_get (headers r) ''Content-Type'' in
      case contentType of
        None \<Rightarrow> ResponseText r
      | Some ct \<Rightarrow>
          if ct \<noteq> [] \<and> test_application_json ct then ResponseJson r else ResponseText r)"

section \<open>Values, handlers and routes\<close>

text \<open>
  Handlers return and throw arbitrary JavaScript values. The file tells apart
  \<open>undefined\<close>, responses (by \<open>isResponse\<close>) and everything else; the errors it creates
  itself are \<open>Error\<close> objects with a message. \<open>TypeError\<close> is what the language throws when
  a call expression finds \<open>undefined\<close> in place of a function. \<open>Value\<close> holds any other
  value (\<open>null\<close>, strings, numbers, plain objects, ...).
\<close>

datatype 'd jsvalue =
    Undefined
  | Response (the_Response: response)
  | Error string
  | TypeError string
  | Value 'd

text \<open>
  Modelled from the spec: \<open>isResponse\<close> is imported from \<open>./responses\<close>, a module outside
  \<open>data.ts\<close>, and the spec only says that handler results are normalised into responses.
  \<open>data.ts\<close> uses it as the type guard for \<open>Response\<close> (behind it, \<open>error.headers.set\<close> and
  \<open>isRedirectResponse(error)\<close> are applied to a value of type \<open>unknown\<close>), so it is the test
  for the alternative \<open>Response\<close> of the values.
\<close>

definition isResponse :: "'d jsvalue \<Rightarrow> bool" where
  "isResponse v = (case v of Response _ \<Rightarrow> True | _ \<Rightarrow> False)"

text \<open>The comparison \<open>result === undefined\<close>.\<close>

definition is_undefined :: "'d jsvalue \<Rightarrow> bool" where
  "is_undefined v = (case v of Undefined \<Rightarrow> True | _ \<Rightarrow> False)"

text \<open>
  An awaited call either yields a value, throws a value (a rejected promise included), or
  never settles.
\<close>

datatype ('t, 'r) outcome = Returns 'r | Throws 't | Pending

record ('c, 'p) DataFunctionArgs =
  request :: request
  context' :: 'c
  params :: 'p

type_synonym ('c, 'p, 'd) DataFunction =
  "('c, 'p) DataFunctionArgs \<Rightarrow> ('d jsvalue, 'd jsvalue) outcome"

record ('c, 'p, 'd) route_module =
  action :: "('c, 'p, 'd) DataFunction option"
  loader :: "('c, 'p, 'd) DataFunction option"

record ('c, 'p, 'd) ServerRoute =
  id' :: string
  module :: "('c, 'p, 'd) route_module"

text \<open>
  A call expression \<open>f(args)\<close> on an optional function, with the calls it makes: calling
  \<open>undefined\<close> throws a \<open>TypeError\<close> and runs no handler.
\<close>

datatype ('c, 'p) call =
    Invoked "('c, 'p) DataFunctionArgs"
  | CalledUndefined "('c, 'p) DataFunctionArgs"

definition call_function ::
  "string \<Rightarrow> ('c, 'p, 'd) DataFunction option \<Rightarrow> ('c, 'p) DataFunctionArgs \<Rightarrow>
     ('c, 'p) call list \<times> ('d jsvalue, 'd jsvalue) outcome" where
  "call_function name f args =
     (case f of
        None \<Rightarrow> ([CalledUndefined args], Throws (TypeError (name @ '' is not a function'')))
      | Some g \<Rightarrow> ([Invoked args], g args))"

section \<open>\<open>stripIndexParam\<close> and \<open>stripDataParam\<close>\<close>

text \<open>
  Both functions end in \<open>new Request(url.href, request)\<close> and so throw what the constructor
  throws.
\<close>

text \<open>The first loop of \<open>stripIndexParam\<close>: push every truthy (non-empty) value.\<close>

fun keep_truthy :: "string list \<Rightarrow> string list \<Rightarrow> string list" where
  "keep_truthy [] indexValuesToKeep = indexValuesToKeep"
| "keep_truthy (indexValue # rest) indexValuesToKeep =
     keep_truthy rest
       (if indexValue \<noteq> [] then indexValuesToKeep @ [indexValue] else indexValuesToKeep)"

text \<open>The second loop: append each kept value under the name \<open>index\<close>.\<close>

fun append_index :: "string list \<Rightarrow> search_params \<Rightarrow> search_params" where
  "append_index [] ps = ps"
| "append_index (toKeep # rest) ps = append_index rest (append ''index'' toKeep ps)"

definition stripIndexParam :: "request \<Rightarrow> string + request" where
  "stripIndexParam = (\<lambda>request.
     let u = url request;
         indexValues = getAll ''index'' (searchParams u);
         u = u\<lparr>searchParams := delete ''index'' (searchParams u)\<rparr>;
         indexValuesToKeep = keep_truthy indexValues [];
         u = u\<lparr>searchParams := append_index indexValuesToKeep (searchParams u)\<rparr>
     in new_Request u request)"

definition stripDataParam :: "request \<Rightarrow> string + request" where
  "stripDataParam = (\<lambda>request.
     let u = url request;
         u = u\<lparr>searchParams := delete ''_data'' (searchParams u)\<rparr>
     in new_Request u request)"

section \<open>\<open>callRouteAction\<close> and \<open>callRouteLoader\<close>\<close>

text \<open>
  \<open>json\<close> and \<open>isRedirectResponse\<close> are imported from \<open>./responses\<close> and are parameters
  of the model, as is \<open>href\<close>, the text of a URL that \<open>request.url\<close> reads. Each entry
  point gives the calls it made and how its promise settles: \<open>Returns\<close> for a fulfilled
  promise, \<open>Throws\<close> for a rejected one. The argument of the handler is built inside the
  \<open>try\<close> block, before the call: a \<open>TypeError\<close> of \<open>new Request\<close> is caught there, is not a
  response and is rethrown, and the handler is not called. A \<open>TypeError\<close> of
  \<open>error.headers.set\<close> is thrown inside the \<open>catch\<close> block and leaves the function.
\<close>

definition action_undefined_message :: "string \<Rightarrow> string" where
  \<open>action_undefined_message route_id =
     ''You defined an action for route "'' @ route_id @ ''" but didn't return '' @
     ''anything from your `action` function. Please return a value or `null`.''\<close>

definition loader_undefined_message :: "string \<Rightarrow> string" where
  \<open>loader_undefined_message route_id =
     ''You defined a loader for route "'' @ route_id @ ''" but didn't return '' @
     ''anything from your `loader` function. Please return a value or `null`.''\<close>

definition loader_missing_message :: "string \<Rightarrow> string \<Rightarrow> string \<Rightarrow> string" where
  \<open>loader_missing_message request_method request_url route_id =
     ''You made a '' @ request_method @ '' request to '' @ request_url @
     '' but did not provide '' @
     ''a default component or `loader` for route "'' @ route_id @ ''", '' @
     ''so there is no way to handle the request.''\<close>

definition callRouteAction ::
  "('d jsvalue \<Rightarrow> response) \<Rightarrow> (response \<Rightarrow> bool) \<Rightarrow>
   'c \<Rightarrow> ('c, 'p, 'd) ServerRoute \<Rightarrow> 'p \<Rightarrow> request \<Rightarrow>
   ('c, 'p) call list \<times> ('d jsvalue, response) outcome" where
  "callRouteAction json isRedirectResponse = (\<lambda>loadContext route params request.
     let action = action (module route) in
     if action = None then
       (let response = new_Response 405 in
        case headers_set response ''X-Remix-Catch'' ''yes'' of
          Inl msg \<Rightarrow> ([], Throws (TypeError msg))
        | Inr response \<Rightarrow> ([], Returns response))
     else
       (let (calls, settled) =
              (case stripIndexParam request of
                 Inl msg \<Rightarrow> ([], Throws (TypeError msg))
               | Inr stripped \<Rightarrow>
                   (case stripDataParam stripped of
                      Inl msg \<Rightarrow> ([], Throws (TypeError msg))
                    | Inr stripped \<Rightarrow>
                        call_function ''action'' action
                          \<lparr> request = stripped, context' = loadContext, params = params \<rparr>));
            result =
              (case settled of
                 Returns v \<Rightarrow> Returns v
               | Pending \<Rightarrow> Pending
               | Throws error \<Rightarrow>
                   if \<not> isResponse error then Throws error
                   else if \<not> isRedirectResponse (the_Response error) then
                     (case headers_set (the_Response error) ''X-Remix-Catch'' ''yes'' of
                        Inl msg \<Rightarrow> Throws (TypeError msg)
                      | Inr marked \<Rightarrow> Throws (Response marked))
                   else Returns error)
        in (calls,
            case result of
              Throws thrown \<Rightarrow> Throws thrown
            | Pending \<Rightarrow> Pending
            | Returns result \<Rightarrow>
                if is_undefined result then
                  Throws (Error (action_undefined_message (id' route)))
                else Returns (if isResponse result then the_Response result else json result))))"

definition callRouteLoader ::
  "('d jsvalue \<Rightarrow> response) \<Rightarrow> (response \<Rightarrow> bool) \<Rightarrow> (url \<Rightarrow> string) \<Rightarrow>
   'c \<Rightarrow> ('c, 'p, 'd) ServerRoute \<Rightarrow> 'p \<Rightarrow> request \<Rightarrow>
   ('c, 'p) call list \<times> ('d jsvalue, response) outcome" where
  "callRouteLoader json isRedirectResponse href = (\<lambda>loadContext route params request.
     let loader = loader (module route) in
     if loader = None then
       ([], Throws (Error
          (loader_missing_message (method' request) (href (url request)) (id' route))))
     else
       (let (calls, settled) =
              (case stripIndexParam request of
                 Inl msg \<Rightarrow> ([], Throws (TypeError msg))
               | Inr stripped \<Rightarrow>
                   (case stripDataParam stripped of
                      Inl msg \<Rightarrow> ([], Throws (TypeError msg))
                    | Inr stripped \<Rightarrow>
                        call_function ''loader'' loader
                          \<lparr> request = stripped, context' = loadContext, params = params \<rparr>));
            result =
              (case settled of
                 Returns v \<Rightarrow> Returns v
               | Pending \<Rightarrow> Pending
               | Throws error \<Rightarrow>
                   if \<not> isResponse error then Throws error
                   else if \<not> isRedirectResponse (the_Response error) then
                     (case headers_set (the_Response error) ''X-Remix-Catch'' ''yes'' of
                        Inl msg \<Rightarrow> Throws (TypeError msg)
                      | Inr marked \<Rightarrow> Throws (Response marked))
                   else Returns error)
        in (calls,
            case result of
              Throws thrown \<Rightarrow> Throws thrown
            | Pending \<Rightarrow> Pending
            | Returns result \<Rightarrow>
                if is_undefined result then
                  Throws (Error (loader_undefined_message (id' route)))
                else Returns (if isResponse result then the_Response result else json result))))"

text \<open>
  The argument object both entry points build for the handler: the normalised request,
  the load context and the route parameters; or the message of the \<open>TypeError\<close> that
  building the normalised request throws.
\<close>

definition handler_args ::
  "'c \<Rightarrow> 'p \<Rightarrow> request \<Rightarrow> string + ('c, 'p) DataFunctionArgs" where
  "handler_args loadContext ps req =
     (case stripIndexParam req of
        Inl msg \<Rightarrow> Inl msg
      | Inr stripped \<Rightarrow>
          (case stripDataParam stripped of
             Inl msg \<Rightarrow> Inl msg
           | Inr stripped \<Rightarrow>
               Inr \<lparr> request = stripped, context' = loadContext, params = ps \<rparr>))"

text \<open>
  The requests that \<open>new Request(url.href, request)\<close> accepts as its second argument: those
  without a body, and those whose body has not been read and whose method is neither
  \<open>GET\<close> nor \<open>HEAD\<close>.
\<close>

definition accepted_as_init :: "request \<Rightarrow> bool" where
  "accepted_as_init req \<longleftrightarrow>
     body req = None \<or> (\<not> is_get_or_head (method' req) \<and> \<not> bodyUsed req)"

text \<open>
  What \<open>error.headers.set("X-Remix-Catch", "yes")\<close> leaves of a response with mutable
  headers.
\<close>

definition marked_as_catch :: "response \<Rightarrow> response" where
  "marked_as_catch r = r\<lparr>headers := header_list_set (headers r) ''X-Remix-Catch'' ''yes''\<rparr>"

section \<open>Example inputs\<close>

text \<open>
  Concrete stand-ins for the imported functions and concrete routes, requests and
  handlers, on which the theorems below are evaluated. The data type of the examples has
  the single value \<open>null\<close>.
\<close>

definition example_json :: "unit jsvalue \<Rightarrow> response" where
  "example_json data =
     \<lparr> headers = [(''content-type'', ''application/json; charset=utf-8'')],
       body = Some (case data of Value _ \<Rightarrow> ''null'' | _ \<Rightarrow> ''{}''),
       status = 200, statusText = [], headers_immutable = False \<rparr>"

definition example_isRedirectResponse :: "response \<Rightarrow> bool" where
  "example_isRedirectResponse r \<longleftrightarrow> status r \<in> set [301, 302, 303, 307, 308]"

fun example_query :: "search_params \<Rightarrow> string" where
  "example_query [] = []"
| "example_query [p] = fst p @ ''='' @ snd p"
| "example_query (p # ps) = fst p @ ''='' @ snd p @ ''&'' @ example_query ps"

definition example_href :: "url \<Rightarrow> string" where
  "example_href u =
     origin_path u @
     (if searchParams u = [] then [] else CHR ''?'' # example_query (searchParams u)) @
     (if hash u = [] then [] else CHR ''#'' # hash u)"

definition example_url :: url where
  "example_url =
     \<lparr> origin_path = ''http://localhost/posts'',
       searchParams =
         [(''index'', []), (''a'', ''1''), (''_data'', ''routes/posts''), (''index'', ''x''),
          (''b'', []), (''index'', ''y'')],
       hash = [] \<rparr>"

definition example_get_request :: request where
  "example_get_request =
     \<lparr> headers = [], body = None, method' = ''GET'', url = example_url, bodyUsed = False \<rparr>"

definition example_post_request :: request where
  "example_post_request =
     \<lparr> headers = [(''Content-Type'', ''application/x-www-form-urlencoded'')],
       body = Some ''title=x'', method' = ''POST'', url = example_url, bodyUsed = False \<rparr>"

text \<open>The same request after its body has been read, for instance by \<open>request.formData()\<close>.\<close>

definition example_read_request :: request where
  "example_read_request = example_post_request\<lparr>bodyUsed := True\<rparr>"

text \<open>A response as \<open>fetch()\<close> gives it: its headers are immutable.\<close>

definition example_fetched_not_found :: response where
  "example_fetched_not_found = (new_Response 404)\<lparr>headers_immutable := True\<rparr>"

text \<open>The normalised form of the example URL and the handler arguments built on it.\<close>

definition example_normalised_url :: url where
  "example_normalised_url =
     example_url\<lparr>searchParams :=
       [(''a'', ''1''), (''b'', []), (''index'', ''x''), (''index'', ''y'')]\<rparr>"

definition example_args :: "request \<Rightarrow> (unit, unit) DataFunctionArgs" where
  "example_args req =
     \<lparr> request = req\<lparr>url := example_normalised_url\<rparr>, context' = (), params = () \<rparr>"

definition returns_null :: "(unit, unit, unit) DataFunction" where
  "returns_null args = Returns (Value ())"

definition returns_undefined :: "(unit, unit, unit) DataFunction" where
  "returns_undefined args = Returns Undefined"

definition returns_response :: "(unit, unit, unit) DataFunction" where
  "returns_response args = Returns (Response (new_Response 204))"

definition throws_not_found :: "(unit, unit, unit) DataFunction" where
  "throws_not_found args = Throws (Response (new_Response 404))"

definition throws_fetched_not_found :: "(unit, unit, unit) DataFunction" where
  "throws_fetched_not_found args = Throws (Response example_fetched_not_found)"

definition throws_redirect :: "(unit, unit, unit) DataFunction" where
  "throws_redirect args = Throws (Response (new_Response 302))"

definition throws_error :: "(unit, unit, unit) DataFunction" where
  "throws_error args = Throws (Error ''boom'')"

definition example_route ::
  "(unit, unit, unit) DataFunction \<Rightarrow> (unit, unit, unit) ServerRoute" where
  "example_route h =
     \<lparr> id' = ''routes/posts'', module = \<lparr> action = Some h, loader = Some h \<rparr> \<rparr>"

definition example_route_without_handlers :: "(unit, unit, unit) ServerRoute" where
  "example_route_without_handlers =
     \<lparr> id' = ''routes/posts'', module = \<lparr> action = None, loader = None \<rparr> \<rparr>"

definition example_response :: "string \<Rightarrow> response" where
  "example_response contentType =
     \<lparr> headers = [(''content-type'', contentType)], body = Some ''{}'',
       status = 200, statusText = [], headers_immutable = False \<rparr>"

section \<open>Facts about headers\<close>

lemma ascii_lower_idem: "ascii_lower (ascii_lower c) = ascii_lower c"
  by (simp add: ascii_lower_def)

lemma same_header_name_lower: "same_header_name (map ascii_lower name) name"
  by (simp add: same_header_name_def ascii_lower_idem)

lemma headers_get_set_same: "headers_get (header_list_set h name v) name = Some v"
  by (simp add: headers_get_def header_list_set_def same_header_name_lower)

lemma headers_get_set_other:
  assumes "\<not> same_header_name other name"
  shows "headers_get (header_list_set h name v) other = headers_get h other"
proof -
  have "find (\<lambda>p. same_header_name (fst p) other)
          (filter (\<lambda>p. \<not> same_header_name (fst p) name) h) =
        find (\<lambda>p. same_header_name (fst p) other) h"
    using assms by (induction h) (auto simp: same_header_name_def)
  moreover have "\<not> same_header_name (map ascii_lower name) other"
  proof -
    have "map ascii_lower (map ascii_lower name) = map ascii_lower name"
      by (simp add: ascii_lower_idem)
    with assms show ?thesis
      unfolding same_header_name_def by metis
  qed
  ultimately show ?thesis
    by (simp add: headers_get_def header_list_set_def)
qed

lemma headers_set_mutable:
  "\<not> headers_immutable r \<Longrightarrow>
   headers_set r name v = Inr (r\<lparr>headers := header_list_set (headers r) name v\<rparr>)"
  by (simp add: headers_set_def)

lemma headers_set_immutable:
  "headers_immutable r \<Longrightarrow> headers_set r name v = Inl ''Headers are immutable''"
  by (simp add: headers_set_def)

section \<open>The regular expression finds whole words\<close>

lemma last_char_Cons: "last_char prev (c # pre) = last_char (Some c) pre"
  by (simp add: last_char_def)

lemma matches_here_iff:
  "matches_here lit prev s \<longleftrightarrow>
     (\<exists>post. s = lit @ post \<and> word_boundary prev (first_char (lit @ post)) \<and>
        word_boundary (last_char prev lit) (first_char post))"
  by (auto simp: matches_here_def prefix_def)

lemma ex_list_cases: "(\<exists>xs. P xs) \<longleftrightarrow> P [] \<or> (\<exists>x xs. P (x # xs))"
  by (metis list.exhaust)

lemma regex_search_iff:
  "regex_search lit prev s \<longleftrightarrow>
     (\<exists>pre post. s = pre @ lit @ post \<and>
        word_boundary (last_char prev pre) (first_char (lit @ post)) \<and>
        word_boundary (last_char (last_char prev pre) lit) (first_char post))"
proof (induction s arbitrary: prev)
  case Nil
  show ?case
    by (auto simp: matches_here_iff last_char_def)
next
  case (Cons c cs)
  show ?case
    by (subst ex_list_cases) (simp add: Cons.IH matches_here_iff last_char_Cons, simp add: last_char_def)
qed

lemma test_application_json_iff:
  "test_application_json s \<longleftrightarrow> contains_whole_word ''application/json'' s"
  unfolding test_application_json_def contains_whole_word_def regex_search_iff
  by (simp add: word_boundary_def first_char_def last_char_def is_word_at_def is_word_char_def)

lemma not_contains_whole_word_Nil: "\<not> contains_whole_word ''application/json'' []"
  by (simp add: contains_whole_word_def)

section \<open>Claims about \<open>extractData\<close>\<close>

text \<open>
  Claim C10. For every response, \<open>extractData\<close> reads the body with \<open>response.json()\<close> if
  and only if the response has a \<open>Content-Type\<close> header whose value contains
  \<open>application/json\<close> as a whole word; in every other case, a missing header included, it
  reads the body with \<open>response.text()\<close>.
\<close>

theorem extractData_json_iff_content_type:
  "(extractData r = ResponseJson r \<longleftrightarrow>
      (\<exists>ct. headers_get (headers r) ''Content-Type'' = Some ct \<and>
            contains_whole_word ''application/json'' ct)) \<and>
   (extractData r = ResponseText r \<longleftrightarrow>
      \<not> (\<exists>ct. headers_get (headers r) ''Content-Type'' = Some ct \<and>
            contains_whole_word ''application/json'' ct))"
proof (cases "headers_get (headers r) ''Content-Type''")
  case None
  then show ?thesis by (simp add: extractData_def)
next
  case (Some ct)
  show ?thesis
  proof (cases "ct = []")
    case True
    with Some show ?thesis
      by (simp add: extractData_def not_contains_whole_word_Nil)
  next
    case False
    with Some show ?thesis
      by (simp add: extractData_def test_application_json_iff)
  qed
qed

lemma extractData_examples:
  "extractData (example_response ''application/json; charset=utf-8'') =
     ResponseJson (example_response ''application/json; charset=utf-8'') \<and>
   extractData (example_response ''text/application/json'') =
     ResponseJson (example_response ''text/application/json'') \<and>
   extractData (example_response ''application/jsonp'') =
     ResponseText (example_response ''application/jsonp'') \<and>
   extractData (example_response ''x_application/json'') =
     ResponseText (example_response ''x_application/json'') \<and>
   extractData (example_response []) = ResponseText (example_response []) \<and>
   extractData (new_Response 200) = ResponseText (new_Response 200)"
  by (simp add: extractData_def example_response_def new_Response_def headers_get_def
      same_header_name_def ascii_lower_def test_application_json_def matches_here_def
      word_boundary_def is_word_at_def is_word_char_def first_char_def last_char_def)

section \<open>Facts about the two strip functions\<close>

lemma keep_truthy_eq: "keep_truthy vs acc = acc @ filter (\<lambda>v. v \<noteq> []) vs"
  by (induction vs arbitrary: acc) simp_all

lemma append_index_eq: "append_index vs ps = ps @ map (Pair ''index'') vs"
  by (induction vs arbitrary: ps) (simp_all add: append_def)

lemma new_Request_Inr:
  "new_Request u init = Inr r \<Longrightarrow>
   r = \<lparr> headers = headers init, body = body init, method' = method' init, url = u,
         bodyUsed = False \<rparr> \<and> accepted_as_init init"
  by (auto simp: new_Request_def accepted_as_init_def split: if_splits)

lemma new_Request_accepted:
  "accepted_as_init init \<Longrightarrow>
   new_Request u init =
     Inr \<lparr> headers = headers init, body = body init, method' = method' init, url = u,
           bodyUsed = False \<rparr>"
  by (auto simp: new_Request_def accepted_as_init_def)

lemma new_Request_refused:
  "\<not> accepted_as_init init \<Longrightarrow> \<exists>msg. new_Request u init = Inl msg"
  by (auto simp: new_Request_def accepted_as_init_def)

lemma stripIndexParam_Inr:
  assumes "stripIndexParam req = Inr req'"
  shows "searchParams (url req') =
     delete ''index'' (searchParams (url req)) @
     map (Pair ''index'') (filter (\<lambda>v. v \<noteq> []) (getAll ''index'' (searchParams (url req))))"
    and "method' req' = method' req" and "headers req' = headers req"
    and "body req' = body req" and "origin_path (url req') = origin_path (url req)"
    and "hash (url req') = hash (url req)" and "bodyUsed req' = False"
    and "accepted_as_init req"
  using assms
  by (auto simp: stripIndexParam_def Let_def keep_truthy_eq append_index_eq
      dest!: new_Request_Inr)

lemma stripDataParam_Inr:
  assumes "stripDataParam req = Inr req'"
  shows "searchParams (url req') = delete ''_data'' (searchParams (url req))"
    and "method' req' = method' req" and "headers req' = headers req"
    and "body req' = body req" and "origin_path (url req') = origin_path (url req)"
    and "hash (url req') = hash (url req)" and "bodyUsed req' = False"
    and "accepted_as_init req"
  using assms by (auto simp: stripDataParam_def Let_def dest!: new_Request_Inr)

lemma stripIndexParam_accepted:
  "accepted_as_init req \<Longrightarrow> \<exists>req'. stripIndexParam req = Inr req'"
  by (simp add: stripIndexParam_def Let_def new_Request_accepted)

lemma stripDataParam_accepted:
  "accepted_as_init req \<Longrightarrow> \<exists>req'. stripDataParam req = Inr req'"
  by (simp add: stripDataParam_def Let_def new_Request_accepted)

lemma stripIndexParam_refused:
  "\<not> accepted_as_init req \<Longrightarrow> \<exists>msg. stripIndexParam req = Inl msg"
  by (simp add: stripIndexParam_def Let_def new_Request_refused)

lemma stripIndexParam_keeps_accepted:
  assumes "stripIndexParam req = Inr req'"
  shows "accepted_as_init req'"
  using stripIndexParam_Inr(2,4,7,8) [OF assms] by (auto simp: accepted_as_init_def)

lemma handler_args_Inr:
  assumes "handler_args lc ps req = Inr a"
  shows "\<exists>s. stripIndexParam req = Inr s \<and> stripDataParam s = Inr (request a)"
    and "context' a = lc" and "params a = ps"
  using assms by (auto simp: handler_args_def split: sum.splits)

lemma handler_args_accepted:
  assumes "accepted_as_init req"
  shows "\<exists>a. handler_args lc ps req = Inr a"
proof -
  from assms obtain s where s: "stripIndexParam req = Inr s"
    using stripIndexParam_accepted by blast
  then have "accepted_as_init s"
    by (rule stripIndexParam_keeps_accepted)
  then obtain t where "stripDataParam s = Inr t"
    using stripDataParam_accepted by blast
  with s show ?thesis
    by (simp add: handler_args_def)
qed

lemma handler_args_refused:
  assumes "\<not> accepted_as_init req"
  shows "\<exists>msg. handler_args lc ps req = Inl msg"
  using stripIndexParam_refused [OF assms] by (auto simp: handler_args_def)

lemma filter_other_map_Pair:
  "filter (\<lambda>p. fst p \<noteq> name) (map (Pair name) vs) = []"
  by (induction vs) simp_all

lemma getAll_map_Pair: "getAll name (map (Pair name) vs) = vs"
  by (induction vs) (simp_all add: getAll_def)

lemma getAll_delete_same: "getAll name (delete name ps) = []"
  by (induction ps) (simp_all add: getAll_def delete_def)

lemma getAll_delete_other: "other \<noteq> name \<Longrightarrow> getAll name (delete other ps) = getAll name ps"
  by (induction ps) (auto simp: getAll_def delete_def)

lemma getAll_append: "getAll name (ps @ qs) = getAll name ps @ getAll name qs"
  by (simp add: getAll_def)

lemma getAll_Nil_iff: "getAll name ps = [] \<longleftrightarrow> name \<notin> fst ` set ps"
  by (induction ps) (auto simp: getAll_def)

lemma pair_in_set_getAll: "(name, v) \<in> set ps \<longleftrightarrow> v \<in> set (getAll name ps)"
  by (induction ps) (auto simp: getAll_def)

lemma handler_args_index_values:
  assumes "handler_args lc ps req = Inr a"
  shows "getAll ''index'' (searchParams (url (request a))) =
     filter (\<lambda>v. v \<noteq> []) (getAll ''index'' (searchParams (url req)))"
proof -
  from handler_args_Inr(1) [OF assms] obtain s
    where s: "stripIndexParam req = Inr s" and a: "stripDataParam s = Inr (request a)"
    by blast
  show ?thesis
    by (simp add: stripDataParam_Inr(1) [OF a] stripIndexParam_Inr(1) [OF s] getAll_delete_other
        getAll_append getAll_delete_same getAll_map_Pair)
qed

lemma handler_args_no_data:
  assumes "handler_args lc ps req = Inr a"
  shows "getAll ''_data'' (searchParams (url (request a))) = []"
proof -
  from handler_args_Inr(1) [OF assms] obtain s
    where a: "stripDataParam s = Inr (request a)"
    by blast
  show ?thesis
    by (simp add: stripDataParam_Inr(1) [OF a] getAll_delete_same)
qed

lemma handler_args_method:
  assumes "handler_args lc ps req = Inr a"
  shows "method' (request a) = method' req"
proof -
  from handler_args_Inr(1) [OF assms] obtain s
    where s: "stripIndexParam req = Inr s" and a: "stripDataParam s = Inr (request a)"
    by blast
  show ?thesis
    by (simp add: stripDataParam_Inr(2) [OF a] stripIndexParam_Inr(2) [OF s])
qed

lemmas example_defs =
  example_route_def example_route_without_handlers_def returns_null_def returns_undefined_def
  returns_response_def throws_not_found_def throws_fetched_not_found_def throws_redirect_def
  throws_error_def

lemmas example_request_defs =
  example_get_request_def example_post_request_def example_read_request_def example_url_def

lemmas strip_defs =
  stripIndexParam_def stripDataParam_def new_Request_def is_get_or_head_def ascii_lower_def
  getAll_def delete_def append_def Let_def

lemma strip_examples:
  "stripIndexParam example_get_request =
     Inr (example_get_request\<lparr>url := example_url\<lparr>searchParams :=
       [(''a'', ''1''), (''_data'', ''routes/posts''), (''b'', []), (''index'', ''x''),
        (''index'', ''y'')]\<rparr>\<rparr>) \<and>
   stripDataParam example_post_request =
     Inr (example_post_request\<lparr>url := example_url\<lparr>searchParams :=
       [(''index'', []), (''a'', ''1''), (''index'', ''x''), (''b'', []), (''index'', ''y'')]\<rparr>\<rparr>) \<and>
   stripIndexParam example_read_request =
     Inl ''Cannot construct a Request with a body that has already been used'' \<and>
   stripDataParam (example_post_request\<lparr>method' := ''GET''\<rparr>) =
     Inl ''Request with GET/HEAD method cannot have body''"
  by (simp add: strip_defs example_request_defs)

lemma handler_args_examples:
  "handler_args () () example_get_request = Inr (example_args example_get_request) \<and>
   handler_args () () example_post_request = Inr (example_args example_post_request) \<and>
   handler_args () () example_read_request =
     Inl ''Cannot construct a Request with a body that has already been used''"
  by (simp add: handler_args_def strip_defs example_request_defs example_args_def
      example_normalised_url_def)

section \<open>Claims about the strip functions\<close>

text \<open>
  Claim C8. \<open>stripIndexParam\<close> and \<open>stripDataParam\<close> are single-purpose: in the new request
  they build, the query parameters other than \<open>index\<close> (for \<open>stripIndexParam\<close>) and other
  than \<open>_data\<close> (for \<open>stripDataParam\<close>) keep their names, values and relative order, and the
  method, the headers and the body of the request are carried over. Every request that
  \<open>new Request\<close> accepts as its second argument gets its new request.
\<close>

theorem strip_functions_frame:
  "(\<forall>req'. stripIndexParam req = Inr req' \<longrightarrow>
      filter (\<lambda>p. fst p \<noteq> ''index'') (searchParams (url req')) =
        filter (\<lambda>p. fst p \<noteq> ''index'') (searchParams (url req)) \<and>
      method' req' = method' req \<and> headers req' = headers req \<and> body req' = body req) \<and>
   (\<forall>req'. stripDataParam req = Inr req' \<longrightarrow>
      filter (\<lambda>p. fst p \<noteq> ''_data'') (searchParams (url req')) =
        filter (\<lambda>p. fst p \<noteq> ''_data'') (searchParams (url req)) \<and>
      method' req' = method' req \<and> headers req' = headers req \<and> body req' = body req) \<and>
   (accepted_as_init req \<longrightarrow>
      (\<exists>req'. stripIndexParam req = Inr req') \<and> (\<exists>req'. stripDataParam req = Inr req'))"
proof (intro conjI allI impI)
  fix req'
  assume s: "stripIndexParam req = Inr req'"
  show "filter (\<lambda>p. fst p \<noteq> ''index'') (searchParams (url req')) =
        filter (\<lambda>p. fst p \<noteq> ''index'') (searchParams (url req))"
    by (simp add: stripIndexParam_Inr(1) [OF s] delete_def filter_other_map_Pair)
  show "method' req' = method' req" "headers req' = headers req" "body req' = body req"
    by (rule stripIndexParam_Inr [OF s])+
next
  fix req'
  assume s: "stripDataParam req = Inr req'"
  show "filter (\<lambda>p. fst p \<noteq> ''_data'') (searchParams (url req')) =
        filter (\<lambda>p. fst p \<noteq> ''_data'') (searchParams (url req))"
    by (simp add: stripDataParam_Inr(1) [OF s] delete_def)
  show "method' req' = method' req" "headers req' = headers req" "body req' = body req"
    by (rule stripDataParam_Inr [OF s])+
next
  assume "accepted_as_init req"
  then show "\<exists>req'. stripIndexParam req = Inr req'" "\<exists>req'. stripDataParam req = Inr req'"
    by (rule stripIndexParam_accepted, rule stripDataParam_accepted)
qed

theorem strip_functions_frame_witness:
  "accepted_as_init example_post_request \<and>
   (\<exists>req'. stripIndexParam example_post_request = Inr req' \<and>
      filter (\<lambda>p. fst p \<noteq> ''index'') (searchParams (url req')) =
        [(''a'', ''1''), (''_data'', ''routes/posts''), (''b'', [])] \<and>
      method' req' = ''POST'' \<and> body req' = Some ''title=x'' \<and>
      headers req' = [(''Content-Type'', ''application/x-www-form-urlencoded'')]) \<and>
   (\<exists>req'. stripDataParam example_post_request = Inr req' \<and>
      filter (\<lambda>p. fst p \<noteq> ''_data'') (searchParams (url req')) =
        [(''index'', []), (''a'', ''1''), (''index'', ''x''), (''b'', []), (''index'', ''y'')] \<and>
      method' req' = ''POST'' \<and> body req' = Some ''title=x'' \<and>
      headers req' = [(''Content-Type'', ''application/x-www-form-urlencoded'')])"
proof -
  have acc: "accepted_as_init example_post_request"
    by (simp add: accepted_as_init_def example_post_request_def is_get_or_head_def
        ascii_lower_def)
  have vals: "filter (\<lambda>p. fst p \<noteq> ''index'') (searchParams (url example_post_request)) =
        [(''a'', ''1''), (''_data'', ''routes/posts''), (''b'', [])]"
    "filter (\<lambda>p. fst p \<noteq> ''_data'') (searchParams (url example_post_request)) =
        [(''index'', []), (''a'', ''1''), (''index'', ''x''), (''b'', []), (''index'', ''y'')]"
    "method' example_post_request = ''POST''" "body example_post_request = Some ''title=x''"
    "headers example_post_request = [(''Content-Type'', ''application/x-www-form-urlencoded'')]"
    by (simp_all add: example_post_request_def example_url_def)
  from strip_functions_frame [of example_post_request] acc vals
  show ?thesis
    by (simp only: simp_thms) metis
qed

section \<open>How the two entry points settle\<close>

lemma callRouteAction_absent:
  "action (module route) = None \<Longrightarrow>
   callRouteAction json isRedirect lc route ps req =
     ([], Returns (marked_as_catch (new_Response 405)))"
  by (simp add: callRouteAction_def marked_as_catch_def headers_set_def new_Response_def Let_def)

lemma callRouteLoader_absent:
  "loader (module route) = None \<Longrightarrow>
   callRouteLoader json isRedirect href lc route ps req =
     ([], Throws (Error (loader_missing_message (method' req) (href (url req)) (id' route))))"
  by (simp add: callRouteLoader_def)

lemma callRouteAction_refused:
  "action (module route) = Some f \<Longrightarrow> handler_args lc ps req = Inl msg \<Longrightarrow>
   callRouteAction json isRedirect lc route ps req = ([], Throws (TypeError msg))"
  by (auto simp: callRouteAction_def handler_args_def isResponse_def Let_def split: sum.splits)

lemma callRouteLoader_refused:
  "loader (module route) = Some f \<Longrightarrow> handler_args lc ps req = Inl msg \<Longrightarrow>
   callRouteLoader json isRedirect href lc route ps req = ([], Throws (TypeError msg))"
  by (auto simp: callRouteLoader_def handler_args_def isResponse_def Let_def split: sum.splits)

lemma callRouteAction_calls:
  "action (module route) = Some f \<Longrightarrow> handler_args lc ps req = Inr a \<Longrightarrow>
   fst (callRouteAction json isRedirect lc route ps req) = [Invoked a]"
  by (auto simp: callRouteAction_def call_function_def handler_args_def Let_def
      split: sum.splits)

lemma callRouteLoader_calls:
  "loader (module route) = Some f \<Longrightarrow> handler_args lc ps req = Inr a \<Longrightarrow>
   fst (callRouteLoader json isRedirect href lc route ps req) = [Invoked a]"
  by (auto simp: callRouteLoader_def call_function_def handler_args_def Let_def
      split: sum.splits)

lemma callRouteAction_present:
  "action (module route) = Some f \<Longrightarrow> handler_args lc ps req = Inr a \<Longrightarrow>
   snd (callRouteAction json isRedirect lc route ps req) =
     (case f a of
        Returns v \<Rightarrow>
          if is_undefined v then Throws (Error (action_undefined_message (id' route)))
          else Returns (case v of Response r \<Rightarrow> r | _ \<Rightarrow> json v)
      | Throws e \<Rightarrow>
          (case e of
             Response r \<Rightarrow>
               if isRedirect r then Returns r
               else if headers_immutable r then Throws (TypeError ''Headers are immutable'')
               else Throws (Response (marked_as_catch r))
           | _ \<Rightarrow> Throws e)
      | Pending \<Rightarrow> Pending)"
  by (auto simp: callRouteAction_def call_function_def handler_args_def marked_as_catch_def
      headers_set_def isResponse_def is_undefined_def Let_def
      split: sum.splits outcome.splits jsvalue.splits)

lemma callRouteLoader_present:
  "loader (module route) = Some f \<Longrightarrow> handler_args lc ps req = Inr a \<Longrightarrow>
   snd (callRouteLoader json isRedirect href lc route ps req) =
     (case f a of
        Returns v \<Rightarrow>
          if is_undefined v then Throws (Error (loader_undefined_message (id' route)))
          else Returns (case v of Response r \<Rightarrow> r | _ \<Rightarrow> json v)
      | Throws e \<Rightarrow>
          (case e of
             Response r \<Rightarrow>
               if isRedirect r then Returns r
               else if headers_immutable r then Throws (TypeError ''Headers are immutable'')
               else Throws (Response (marked_as_catch r))
           | _ \<Rightarrow> Throws e)
      | Pending \<Rightarrow> Pending)"
  by (auto simp: callRouteLoader_def call_function_def handler_args_def marked_as_catch_def
      headers_set_def isResponse_def is_undefined_def Let_def
      split: sum.splits outcome.splits jsvalue.splits)

lemma callRouteAction_log:
  "fst (callRouteAction json isRedirect lc route ps req) =
     (case handler_args lc ps req of
        Inl msg \<Rightarrow> []
      | Inr a \<Rightarrow> if action (module route) = None then [] else [Invoked a])"
  by (cases "action (module route)"; cases "handler_args lc ps req")
    (simp_all add: callRouteAction_absent callRouteAction_refused callRouteAction_calls)

lemma callRouteLoader_log:
  "fst (callRouteLoader json isRedirect href lc route ps req) =
     (case handler_args lc ps req of
        Inl msg \<Rightarrow> []
      | Inr a \<Rightarrow> if loader (module route) = None then [] else [Invoked a])"
  by (cases "loader (module route)"; cases "handler_args lc ps req")
    (simp_all add: callRouteLoader_absent callRouteLoader_refused callRouteLoader_calls)

lemma marked_as_catch_header:
  "headers_get (headers (marked_as_catch r)) ''X-Remix-Catch'' = Some ''yes''"
  by (simp add: marked_as_catch_def headers_get_set_same)

lemma marked_as_catch_frame:
  "status (marked_as_catch r) = status r \<and> statusText (marked_as_catch r) = statusText r \<and>
   body (marked_as_catch r) = body r"
  by (simp add: marked_as_catch_def)

lemma undefined_messages_differ: "action_undefined_message rid \<noteq> loader_undefined_message rid"
  by (simp add: action_undefined_message_def loader_undefined_message_def)

lemma sublist_action_undefined_message: "sublist rid (action_undefined_message rid)"
  unfolding action_undefined_message_def by (rule sublist_appendI)

lemma sublist_loader_undefined_message: "sublist rid (loader_undefined_message rid)"
  unfolding loader_undefined_message_def by (rule sublist_appendI)

lemma is_undefined_iff: "is_undefined v \<longleftrightarrow> v = Undefined"
  by (cases v) (simp_all add: is_undefined_def)

lemmas handler_args_example_get = handler_args_examples [THEN conjunct1]

lemmas handler_args_example_post = handler_args_examples [THEN conjunct2, THEN conjunct1]

lemmas handler_args_example_read = handler_args_examples [THEN conjunct2, THEN conjunct2]

section \<open>Claims about the entry points\<close>

text \<open>
  Claim C1. Whenever \<open>callRouteAction\<close> or \<open>callRouteLoader\<close> returns normally after its
  handler resolved to a value, the returned response is that value itself if it is a
  response, and \<open>json\<close> of the value otherwise. Every resolved value other than
  \<open>undefined\<close> makes the entry point return.
\<close>

theorem handler_result_is_normalised:
  "(action (module route) = Some f \<and> handler_args lc ps req = Inr a \<and> f a = Returns v \<longrightarrow>
      (\<forall>r. snd (callRouteAction json isRedirect lc route ps req) = Returns r \<longrightarrow>
         r = (case v of Response r' \<Rightarrow> r' | _ \<Rightarrow> json v)) \<and>
      (v \<noteq> Undefined \<longrightarrow>
         (\<exists>r. snd (callRouteAction json isRedirect lc route ps req) = Returns r))) \<and>
   (loader (module route) = Some g \<and> handler_args lc ps req = Inr a \<and> g a = Returns w \<longrightarrow>
      (\<forall>r. snd (callRouteLoader json isRedirect href lc route ps req) = Returns r \<longrightarrow>
         r = (case w of Response r' \<Rightarrow> r' | _ \<Rightarrow> json w)) \<and>
      (w \<noteq> Undefined \<longrightarrow>
         (\<exists>r. snd (callRouteLoader json isRedirect href lc route ps req) = Returns r)))"
proof (intro conjI impI; elim conjE)
  assume "action (module route) = Some f" and "handler_args lc ps req = Inr a"
    and "f a = Returns v"
  then have *: "snd (callRouteAction json isRedirect lc route ps req) =
      (if is_undefined v then Throws (Error (action_undefined_message (id' route)))
       else Returns (case v of Response r \<Rightarrow> r | _ \<Rightarrow> json v))"
    by (simp add: callRouteAction_present)
  show "\<forall>r. snd (callRouteAction json isRedirect lc route ps req) = Returns r \<longrightarrow>
         r = (case v of Response r' \<Rightarrow> r' | _ \<Rightarrow> json v)"
    unfolding * by (auto split: if_splits)
  show "\<exists>r. snd (callRouteAction json isRedirect lc route ps req) = Returns r"
    if "v \<noteq> Undefined"
    unfolding * using that by (simp add: is_undefined_iff)
next
  assume "loader (module route) = Some g" and "handler_args lc ps req = Inr a"
    and "g a = Returns w"
  then have *: "snd (callRouteLoader json isRedirect href lc route ps req) =
      (if is_undefined w then Throws (Error (loader_undefined_message (id' route)))
       else Returns (case w of Response r \<Rightarrow> r | _ \<Rightarrow> json w))"
    by (simp add: callRouteLoader_present)
  show "\<forall>r. snd (callRouteLoader json isRedirect href lc route ps req) = Returns r \<longrightarrow>
         r = (case w of Response r' \<Rightarrow> r' | _ \<Rightarrow> json w)"
    unfolding * by (auto split: if_splits)
  show "\<exists>r. snd (callRouteLoader json isRedirect href lc route ps req) = Returns r"
    if "w \<noteq> Undefined"
    unfolding * using that by (simp add: is_undefined_iff)
qed

theorem handler_result_is_normalised_witness:
  "snd (callRouteAction example_json example_isRedirectResponse () (example_route returns_response)
          () example_post_request) = Returns (new_Response 204) \<and>
   snd (callRouteLoader example_json example_isRedirectResponse example_href ()
          (example_route returns_null) () example_get_request) = Returns (example_json (Value ()))"
  using handler_result_is_normalised [where route = "example_route returns_response"
      and f = returns_response and v = "Response (new_Response 204)" and lc = "()" and ps = "()"
      and req = example_post_request and json = example_json
      and isRedirect = example_isRedirectResponse and g = returns_response and w = Undefined
      and a = "example_args example_post_request"] handler_args_example_post
    handler_result_is_normalised [where route = "example_route returns_null"
      and g = returns_null and w = "Value ()" and lc = "()" and ps = "()"
      and req = example_get_request and json = example_json and href = example_href
      and isRedirect = example_isRedirectResponse and f = returns_null and v = Undefined
      and a = "example_args example_get_request"] handler_args_example_get
  by (auto simp: example_defs)

text \<open>
  Claim C2, as amended. A value thrown by the handler that is not a response is rethrown
  unchanged; a thrown response that is not a redirect and whose headers are mutable is
  rethrown with its \<open>X-Remix-Catch\<close> header set to \<open>yes\<close>; a thrown redirect response is not
  rethrown but returned. Setting the header makes \<open>get\<close> read \<open>yes\<close> for it and leaves
  every other header as it was. The claim as written (every thrown response that is not a
  redirect is rethrown) fails for a response with immutable headers, as the example after
  the theorem shows.
\<close>

theorem thrown_values_are_reclassified:
  "(action (module route) = Some f \<and> handler_args lc ps req = Inr a \<and> f a = Throws e \<longrightarrow>
      (\<not> isResponse e \<longrightarrow>
         snd (callRouteAction json isRedirect lc route ps req) = Throws e) \<and>
      (\<forall>r. e = Response r \<and> \<not> isRedirect r \<and> \<not> headers_immutable r \<longrightarrow>
         snd (callRouteAction json isRedirect lc route ps req) =
           Throws (Response
             (r\<lparr>headers := header_list_set (headers r) ''X-Remix-Catch'' ''yes''\<rparr>))) \<and>
      (\<forall>r. e = Response r \<and> isRedirect r \<longrightarrow>
         snd (callRouteAction json isRedirect lc route ps req) = Returns r)) \<and>
   (loader (module route) = Some g \<and> handler_args lc ps req = Inr a \<and> g a = Throws e' \<longrightarrow>
      (\<not> isResponse e' \<longrightarrow>
         snd (callRouteLoader json isRedirect href lc route ps req) = Throws e') \<and>
      (\<forall>r. e' = Response r \<and> \<not> isRedirect r \<and> \<not> headers_immutable r \<longrightarrow>
         snd (callRouteLoader json isRedirect href lc route ps req) =
           Throws (Response
             (r\<lparr>headers := header_list_set (headers r) ''X-Remix-Catch'' ''yes''\<rparr>))) \<and>
      (\<forall>r. e' = Response r \<and> isRedirect r \<longrightarrow>
         snd (callRouteLoader json isRedirect href lc route ps req) = Returns r)) \<and>
   (\<forall>h. headers_get (header_list_set h ''X-Remix-Catch'' ''yes'') ''X-Remix-Catch'' =
      Some ''yes'') \<and>
   (\<forall>h name. \<not> same_header_name name ''X-Remix-Catch'' \<longrightarrow>
      headers_get (header_list_set h ''X-Remix-Catch'' ''yes'') name = headers_get h name)"
proof (intro conjI impI allI; (elim conjE)?)
  assume "action (module route) = Some f" and "handler_args lc ps req = Inr a"
    and "f a = Throws e"
  then have *: "snd (callRouteAction json isRedirect lc route ps req) =
      (case e of
         Response r \<Rightarrow>
           if isRedirect r then Returns r
           else if headers_immutable r then Throws (TypeError ''Headers are immutable'')
           else Throws (Response (marked_as_catch r))
       | _ \<Rightarrow> Throws e)"
    by (simp add: callRouteAction_present)
  show "snd (callRouteAction json isRedirect lc route ps req) = Throws e" if "\<not> isResponse e"
    unfolding * using that by (cases e) (simp_all add: isResponse_def)
  show "snd (callRouteAction json isRedirect lc route ps req) =
          Throws (Response
            (r\<lparr>headers := header_list_set (headers r) ''X-Remix-Catch'' ''yes''\<rparr>))"
    if "e = Response r" and "\<not> isRedirect r" and "\<not> headers_immutable r" for r
    unfolding * using that by (simp add: marked_as_catch_def)
  show "snd (callRouteAction json isRedirect lc route ps req) = Returns r"
    if "e = Response r" and "isRedirect r" for r
    unfolding * using that by simp
next
  assume "loader (module route) = Some g" and "handler_args lc ps req = Inr a"
    and "g a = Throws e'"
  then have *: "snd (callRouteLoader json isRedirect href lc route ps req) =
      (case e' of
         Response r \<Rightarrow>
           if isRedirect r then Returns r
           else if headers_immutable r then Throws (TypeError ''Headers are immutable'')
           else Throws (Response (marked_as_catch r))
       | _ \<Rightarrow> Throws e')"
    by (simp add: callRouteLoader_present)
  show "snd (callRouteLoader json isRedirect href lc route ps req) = Throws e'"
    if "\<not> isResponse e'"
    unfolding * using that by (cases e') (simp_all add: isResponse_def)
  show "snd (callRouteLoader json isRedirect href lc route ps req) =
          Throws (Response
            (r\<lparr>headers := header_list_set (headers r) ''X-Remix-Catch'' ''yes''\<rparr>))"
    if "e' = Response r" and "\<not> isRedirect r" and "\<not> headers_immutable r" for r
    unfolding * using that by (simp add: marked_as_catch_def)
  show "snd (callRouteLoader json isRedirect href lc route ps req) = Returns r"
    if "e' = Response r" and "isRedirect r" for r
    unfolding * using that by simp
next
  show "headers_get (header_list_set h ''X-Remix-Catch'' ''yes'') ''X-Remix-Catch'' =
      Some ''yes''" for h
    by (rule headers_get_set_same)
next
  show "headers_get (header_list_set h ''X-Remix-Catch'' ''yes'') name = headers_get h name"
    if "\<not> same_header_name name ''X-Remix-Catch''" for h name
    using that by (rule headers_get_set_other)
qed

theorem thrown_values_are_reclassified_witness:
  "snd (callRouteAction example_json example_isRedirectResponse () (example_route throws_error)
          () example_post_request) = Throws (Error ''boom'') \<and>
   snd (callRouteAction example_json example_isRedirectResponse () (example_route throws_not_found)
          () example_post_request) =
     Throws (Response \<lparr> headers = [(''x-remix-catch'', ''yes'')], body = None, status = 404,
                        statusText = [], headers_immutable = False \<rparr>) \<and>
   snd (callRouteLoader example_json example_isRedirectResponse example_href ()
          (example_route throws_redirect) () example_get_request) = Returns (new_Response 302)"
  using thrown_values_are_reclassified [where route = "example_route throws_error"
      and f = throws_error and e = "Error ''boom''" and lc = "()" and ps = "()"
      and req = example_post_request and json = example_json
      and isRedirect = example_isRedirectResponse and g = throws_error and e' = "Error ''boom''"
      and a = "example_args example_post_request"]
    thrown_values_are_reclassified [where route = "example_route throws_not_found"
      and f = throws_not_found and e = "Response (new_Response 404)" and lc = "()" and ps = "()"
      and req = example_post_request and json = example_json
      and isRedirect = example_isRedirectResponse and g = throws_not_found
      and e' = "Response (new_Response 404)" and a = "example_args example_post_request"]
    thrown_values_are_reclassified [where route = "example_route throws_redirect"
      and g = throws_redirect and e' = "Response (new_Response 302)" and lc = "()" and ps = "()"
      and req = example_get_request and json = example_json and href = example_href
      and isRedirect = example_isRedirectResponse and f = throws_redirect
      and e = "Response (new_Response 302)" and a = "example_args example_get_request"]
    handler_args_example_post handler_args_example_get
  by (simp add: example_defs isResponse_def example_isRedirectResponse_def new_Response_def
      header_list_set_def ascii_lower_def)

theorem immutable_response_is_not_rethrown:
  "loader (module (example_route throws_fetched_not_found)) = Some throws_fetched_not_found \<and>
   handler_args () () example_get_request = Inr (example_args example_get_request) \<and>
   throws_fetched_not_found (example_args example_get_request) =
     Throws (Response example_fetched_not_found) \<and>
   \<not> example_isRedirectResponse example_fetched_not_found \<and>
   snd (callRouteLoader example_json example_isRedirectResponse example_href ()
          (example_route throws_fetched_not_found) () example_get_request) =
     Throws (TypeError ''Headers are immutable'') \<and>
   snd (callRouteAction example_json example_isRedirectResponse ()
          (example_route throws_fetched_not_found) () example_post_request) =
     Throws (TypeError ''Headers are immutable'')"
  using handler_args_example_post handler_args_example_get
  by (simp add: callRouteLoader_present callRouteAction_present example_defs
      example_fetched_not_found_def example_isRedirectResponse_def new_Response_def)

text \<open>
  Claim C3. The request that the handler receives from \<open>callRouteAction\<close> or
  \<open>callRouteLoader\<close> is normalised: it has no \<open>_data\<close> query parameter and no \<open>index\<close>
  parameter with an empty value, and its \<open>index\<close> values are the non-empty \<open>index\<close> values
  of the original request in their original order. A present handler is called whenever
  \<open>new Request\<close> accepts the request, so the statement is about a call that happens.
\<close>

theorem handler_receives_normalised_request:
  "(\<forall>c \<in> set (fst (callRouteAction json isRedirect lc route ps req)) \<union>
           set (fst (callRouteLoader json isRedirect href lc route ps req)).
      \<exists>a. c = Invoked a \<and>
        ''_data'' \<notin> fst ` set (searchParams (url (request a))) \<and>
        (''index'', []) \<notin> set (searchParams (url (request a))) \<and>
        getAll ''index'' (searchParams (url (request a))) =
          filter (\<lambda>v. v \<noteq> []) (getAll ''index'' (searchParams (url req)))) \<and>
   (action (module route) \<noteq> None \<and> accepted_as_init req \<longrightarrow>
      fst (callRouteAction json isRedirect lc route ps req) \<noteq> []) \<and>
   (loader (module route) \<noteq> None \<and> accepted_as_init req \<longrightarrow>
      fst (callRouteLoader json isRedirect href lc route ps req) \<noteq> [])"
proof (cases "handler_args lc ps req")
  case (Inl msg)
  moreover from Inl have "\<not> accepted_as_init req"
    using handler_args_accepted [of req lc ps] by auto
  ultimately show ?thesis
    by (simp add: callRouteAction_log callRouteLoader_log)
next
  case (Inr a)
  have no_data: "''_data'' \<notin> fst ` set (searchParams (url (request a)))"
    using handler_args_no_data [OF Inr] by (simp add: getAll_Nil_iff)
  have kept: "getAll ''index'' (searchParams (url (request a))) =
      filter (\<lambda>v. v \<noteq> []) (getAll ''index'' (searchParams (url req)))"
    by (rule handler_args_index_values [OF Inr])
  have no_empty: "(''index'', []) \<notin> set (searchParams (url (request a)))"
    unfolding pair_in_set_getAll kept by simp
  have good: "\<exists>a'. Invoked a = Invoked a' \<and>
        ''_data'' \<notin> fst ` set (searchParams (url (request a'))) \<and>
        (''index'', []) \<notin> set (searchParams (url (request a'))) \<and>
        getAll ''index'' (searchParams (url (request a'))) =
          filter (\<lambda>v. v \<noteq> []) (getAll ''index'' (searchParams (url req)))"
    using no_data kept no_empty by blast
  show ?thesis
    unfolding callRouteAction_log callRouteLoader_log Inr using good by simp
qed

theorem handler_receives_normalised_request_witness:
  "fst (callRouteAction example_json example_isRedirectResponse () (example_route returns_null)
          () example_post_request) = [Invoked (example_args example_post_request)] \<and>
   searchParams (url (request (example_args example_post_request))) =
     [(''a'', ''1''), (''b'', []), (''index'', ''x''), (''index'', ''y'')] \<and>
   getAll ''index'' (searchParams (url example_post_request)) = [[], ''x'', ''y''] \<and>
   (\<exists>a. Invoked a \<in> set (fst (callRouteAction example_json example_isRedirectResponse ()
                                  (example_route returns_null) () example_post_request)) \<and>
        ''_data'' \<notin> fst ` set (searchParams (url (request a))) \<and>
        (''index'', []) \<notin> set (searchParams (url (request a))) \<and>
        getAll ''index'' (searchParams (url (request a))) = [''x'', ''y''])"
proof -
  have calls: "fst (callRouteAction example_json example_isRedirectResponse ()
          (example_route returns_null) () example_post_request) =
     [Invoked (example_args example_post_request)]"
    using handler_args_example_post by (simp add: callRouteAction_log example_defs)
  have sp: "searchParams (url (request (example_args example_post_request))) =
     [(''a'', ''1''), (''b'', []), (''index'', ''x''), (''index'', ''y'')]"
    by (simp add: example_args_def example_normalised_url_def)
  have idx: "getAll ''index'' (searchParams (url example_post_request)) = [[], ''x'', ''y'']"
    by (simp add: example_post_request_def example_url_def getAll_def)
  from handler_receives_normalised_request [where json = example_json
      and isRedirect = example_isRedirectResponse and lc = "()" and ps = "()"
      and route = "example_route returns_null" and req = example_post_request
      and href = example_href]
  show ?thesis
    unfolding calls idx using sp by simp
qed

text \<open>
  Claim C4, as amended. Neither entry point looks at the method of the request to decide
  whether to call the handler: whenever the handler is present and the handler arguments
  can be built (\<open>new Request\<close> accepts the request), \<open>callRouteLoader\<close> calls the loader once
  and \<open>callRouteAction\<close> calls the action once, whatever the method, and the request handed
  over has the method of the original. Calling the loader for \<open>GET\<close> only and the action
  for other methods only is left to the caller. The claim as written (no loader call on a
  request that is not \<open>GET\<close>, no action call on a \<open>GET\<close> request) fails on a \<open>POST\<close> request
  for the loader and on a \<open>GET\<close> request for the action, as the example after the theorem
  shows.
\<close>

theorem method_does_not_gate_the_handler:
  "(loader (module route) = Some f \<and> handler_args lc ps req = Inr a \<longrightarrow>
      fst (callRouteLoader json isRedirect href lc route ps req) = [Invoked a] \<and>
      method' (request a) = method' req) \<and>
   (action (module route) = Some g \<and> handler_args lc ps req = Inr a \<longrightarrow>
      fst (callRouteAction json isRedirect lc route ps req) = [Invoked a] \<and>
      method' (request a) = method' req)"
  by (auto simp: callRouteLoader_calls callRouteAction_calls dest: handler_args_method)

theorem method_does_not_gate_the_handler_witness:
  "method' example_post_request = ''POST'' \<and>
   fst (callRouteLoader example_json example_isRedirectResponse example_href ()
          (example_route returns_null) () example_post_request) =
     [Invoked (example_args example_post_request)] \<and>
   method' (request (example_args example_post_request)) = ''POST'' \<and>
   method' example_get_request = ''GET'' \<and>
   fst (callRouteAction example_json example_isRedirectResponse ()
          (example_route returns_null) () example_get_request) =
     [Invoked (example_args example_get_request)] \<and>
   method' (request (example_args example_get_request)) = ''GET''"
  using method_does_not_gate_the_handler [where route = "example_route returns_null"
      and f = returns_null and g = returns_null and json = example_json
      and isRedirect = example_isRedirectResponse and href = example_href and lc = "()"
      and ps = "()" and req = example_post_request
      and a = "example_args example_post_request"]
    method_does_not_gate_the_handler [where route = "example_route returns_null"
      and f = returns_null and g = returns_null and json = example_json
      and isRedirect = example_isRedirectResponse and href = example_href and lc = "()"
      and ps = "()" and req = example_get_request
      and a = "example_args example_get_request"]
    handler_args_example_post handler_args_example_get
  by (simp add: example_defs example_post_request_def example_get_request_def)

theorem loader_invoked_on_post_and_action_on_get:
  "method' example_post_request \<noteq> ''GET'' \<and>
   fst (callRouteLoader example_json example_isRedirectResponse example_href ()
          (example_route returns_null) () example_post_request) =
     [Invoked (example_args example_post_request)] \<and>
   method' example_get_request = ''GET'' \<and>
   fst (callRouteAction example_json example_isRedirectResponse ()
          (example_route returns_null) () example_get_request) =
     [Invoked (example_args example_get_request)]"
  using handler_args_example_post handler_args_example_get
  by (simp add: callRouteLoader_log callRouteAction_log example_defs example_post_request_def
      example_get_request_def)

text \<open>
  Claim C5, as amended. For a route whose action and loader are the same function, the two
  entry points make the same call and settle in the same way whenever that function does
  not resolve to \<open>undefined\<close>. When it resolves to \<open>undefined\<close> both throw an \<open>Error\<close>, but
  the two messages differ: one speaks of the action, the other of the loader. The claim as
  written (the same outcome in every case) fails for a function that resolves to
  \<open>undefined\<close>, as the example after the theorem shows.
\<close>

theorem entry_points_agree_unless_undefined:
  "action (module route) = Some f \<and> loader (module route) = Some f \<longrightarrow>
     ((\<forall>a. handler_args lc ps req = Inr a \<longrightarrow> f a \<noteq> Returns Undefined) \<longrightarrow>
        callRouteAction json isRedirect lc route ps req =
        callRouteLoader json isRedirect href lc route ps req) \<and>
     (\<forall>a. handler_args lc ps req = Inr a \<and> f a = Returns Undefined \<longrightarrow>
        callRouteAction json isRedirect lc route ps req =
          ([Invoked a], Throws (Error (action_undefined_message (id' route)))) \<and>
        callRouteLoader json isRedirect href lc route ps req =
          ([Invoked a], Throws (Error (loader_undefined_message (id' route)))) \<and>
        action_undefined_message (id' route) \<noteq> loader_undefined_message (id' route))"
proof (intro impI conjI allI; (elim conjE)?)
  assume a: "action (module route) = Some f" and l: "loader (module route) = Some f"
  show "callRouteAction json isRedirect lc route ps req =
        callRouteLoader json isRedirect href lc route ps req"
    if defined: "\<forall>a. handler_args lc ps req = Inr a \<longrightarrow> f a \<noteq> Returns Undefined"
  proof (cases "handler_args lc ps req")
    case (Inl msg)
    then show ?thesis
      using a l by (simp add: callRouteAction_refused callRouteLoader_refused)
  next
    case (Inr args)
    with defined have "f args \<noteq> Returns Undefined"
      by simp
    then have "snd (callRouteAction json isRedirect lc route ps req) =
          snd (callRouteLoader json isRedirect href lc route ps req)"
      using a l Inr
      by (simp add: callRouteAction_present callRouteLoader_present is_undefined_iff
          split: outcome.splits)
    moreover have "fst (callRouteAction json isRedirect lc route ps req) =
          fst (callRouteLoader json isRedirect href lc route ps req)"
      using a l Inr by (simp add: callRouteAction_calls callRouteLoader_calls)
    ultimately show ?thesis
      by (rule prod_eqI [rotated])
  qed
  fix args
  assume args: "handler_args lc ps req = Inr args" and u: "f args = Returns Undefined"
  show "callRouteAction json isRedirect lc route ps req =
          ([Invoked args], Throws (Error (action_undefined_message (id' route))))"
    using u callRouteAction_calls [OF a args, of json isRedirect]
      callRouteAction_present [OF a args, of json isRedirect]
    by (simp add: is_undefined_def prod_eq_iff)
  show "callRouteLoader json isRedirect href lc route ps req =
          ([Invoked args], Throws (Error (loader_undefined_message (id' route))))"
    using u callRouteLoader_calls [OF l args, of json isRedirect href]
      callRouteLoader_present [OF l args, of json isRedirect href]
    by (simp add: is_undefined_def prod_eq_iff)
  show "action_undefined_message (id' route) \<noteq> loader_undefined_message (id' route)"
    by (rule undefined_messages_differ)
qed

theorem entry_points_agree_unless_undefined_witness:
  "callRouteAction example_json example_isRedirectResponse () (example_route throws_not_found)
     () example_post_request =
   callRouteLoader example_json example_isRedirectResponse example_href ()
     (example_route throws_not_found) () example_post_request \<and>
   snd (callRouteAction example_json example_isRedirectResponse () (example_route returns_undefined)
     () example_post_request) = Throws (Error (action_undefined_message ''routes/posts''))"
  using entry_points_agree_unless_undefined [where route = "example_route throws_not_found"
      and f = throws_not_found and json = example_json
      and isRedirect = example_isRedirectResponse and href = example_href and lc = "()"
      and ps = "()" and req = example_post_request]
    entry_points_agree_unless_undefined [where route = "example_route returns_undefined"
      and f = returns_undefined and json = example_json
      and isRedirect = example_isRedirectResponse and href = example_href and lc = "()"
      and ps = "()" and req = example_post_request]
    handler_args_example_post
  by (simp add: example_defs)

theorem same_function_different_outcome:
  "action (module (example_route returns_undefined)) = Some returns_undefined \<and>
   loader (module (example_route returns_undefined)) = Some returns_undefined \<and>
   snd (callRouteAction example_json example_isRedirectResponse ()
          (example_route returns_undefined) () example_post_request) =
     Throws (Error (action_undefined_message ''routes/posts'')) \<and>
   snd (callRouteLoader example_json example_isRedirectResponse example_href ()
          (example_route returns_undefined) () example_post_request) =
     Throws (Error (loader_undefined_message ''routes/posts'')) \<and>
   snd (callRouteAction example_json example_isRedirectResponse ()
          (example_route returns_undefined) () example_post_request) \<noteq>
   snd (callRouteLoader example_json example_isRedirectResponse example_href ()
          (example_route returns_undefined) () example_post_request)"
  using handler_args_example_post
  by (simp add: callRouteLoader_present callRouteAction_present example_defs
      is_undefined_def undefined_messages_differ)

text \<open>
  Claim C6. For a route without an action, \<open>callRouteAction\<close> returns, without calling
  anything, a response with status 405 whose \<open>X-Remix-Catch\<close> header is \<open>yes\<close>. For a route
  without a loader, \<open>callRouteLoader\<close> throws an \<open>Error\<close> and does not return.
\<close>

theorem absent_handler_405_or_error:
  "(action (module route) = None \<longrightarrow>
      (\<exists>r. callRouteAction json isRedirect lc route ps req = ([], Returns r) \<and>
           status r = 405 \<and> headers_get (headers r) ''X-Remix-Catch'' = Some ''yes'')) \<and>
   (loader (module route) = None \<longrightarrow>
      (\<exists>msg. callRouteLoader json isRedirect href lc route ps req = ([], Throws (Error msg))) \<and>
      (\<forall>r. snd (callRouteLoader json isRedirect href lc route ps req) \<noteq> Returns r))"
  by (simp add: callRouteAction_absent callRouteLoader_absent marked_as_catch_header
      marked_as_catch_frame new_Response_def)

theorem absent_handler_405_or_error_witness:
  "callRouteAction example_json example_isRedirectResponse () example_route_without_handlers
     () example_post_request =
     ([], Returns \<lparr> headers = [(''x-remix-catch'', ''yes'')], body = None, status = 405,
                     statusText = [], headers_immutable = False \<rparr>) \<and>
   callRouteLoader example_json example_isRedirectResponse example_href ()
     example_route_without_handlers () example_get_request =
     ([], Throws (Error (loader_missing_message ''GET''
        ''http://localhost/posts?index=&a=1&_data=routes/posts&index=x&b=&index=y''
        ''routes/posts'')))"
  using absent_handler_405_or_error [where route = example_route_without_handlers
      and json = example_json and isRedirect = example_isRedirectResponse and href = example_href
      and lc = "()" and ps = "()" and req = example_post_request]
    absent_handler_405_or_error [where route = example_route_without_handlers
      and json = example_json and isRedirect = example_isRedirectResponse and href = example_href
      and lc = "()" and ps = "()" and req = example_get_request]
  by (simp add: callRouteAction_absent callRouteLoader_absent example_defs marked_as_catch_def
      new_Response_def header_list_set_def ascii_lower_def example_get_request_def
      example_url_def example_href_def)

text \<open>
  Claim C7. Neither entry point calls an absent handler: every call that
  \<open>callRouteAction\<close> makes is a call of a present action, every call that
  \<open>callRouteLoader\<close> makes is a call of a present loader, and the call of \<open>undefined\<close> never
  happens.
\<close>

theorem absent_handler_is_never_called:
  "(\<forall>c \<in> set (fst (callRouteAction json isRedirect lc route ps req)).
      (\<exists>a. c = Invoked a) \<and> action (module route) \<noteq> None) \<and>
   (\<forall>c \<in> set (fst (callRouteLoader json isRedirect href lc route ps req)).
      (\<exists>a. c = Invoked a) \<and> loader (module route) \<noteq> None) \<and>
   (\<forall>a. CalledUndefined a \<notin> set (fst (callRouteAction json isRedirect lc route ps req)) \<and>
        CalledUndefined a \<notin> set (fst (callRouteLoader json isRedirect href lc route ps req)))"
  by (cases "handler_args lc ps req")
    (simp_all add: callRouteAction_log callRouteLoader_log)

theorem absent_handler_is_never_called_witness:
  "fst (callRouteAction example_json example_isRedirectResponse () (example_route returns_null)
          () example_post_request) = [Invoked (example_args example_post_request)] \<and>
   action (module (example_route returns_null)) \<noteq> None \<and>
   fst (callRouteLoader example_json example_isRedirectResponse example_href ()
          (example_route returns_null) () example_get_request) =
     [Invoked (example_args example_get_request)] \<and>
   loader (module (example_route returns_null)) \<noteq> None \<and>
   fst (callRouteAction example_json example_isRedirectResponse () example_route_without_handlers
          () example_post_request) = [] \<and>
   fst (callRouteLoader example_json example_isRedirectResponse example_href ()
          example_route_without_handlers () example_get_request) = []"
  using absent_handler_is_never_called [where route = "example_route returns_null"
      and json = example_json and isRedirect = example_isRedirectResponse and href = example_href
      and lc = "()" and ps = "()" and req = example_post_request]
    absent_handler_is_never_called [where route = "example_route returns_null"
      and json = example_json and isRedirect = example_isRedirectResponse and href = example_href
      and lc = "()" and ps = "()" and req = example_get_request]
    absent_handler_is_never_called [where route = example_route_without_handlers
      and json = example_json and isRedirect = example_isRedirectResponse and href = example_href
      and lc = "()" and ps = "()" and req = example_post_request]
    absent_handler_is_never_called [where route = example_route_without_handlers
      and json = example_json and isRedirect = example_isRedirectResponse and href = example_href
      and lc = "()" and ps = "()" and req = example_get_request]
    handler_args_example_post handler_args_example_get
  by (simp add: callRouteAction_log callRouteLoader_log example_defs)

text \<open>
  Claim C9. When the handler is present and resolves to \<open>undefined\<close>, the entry point throws
  an \<open>Error\<close> whose message contains the id of the route, and it does not return; so
  \<open>undefined\<close> is neither passed to \<open>json\<close> nor returned.
\<close>

theorem undefined_result_throws_error_naming_route:
  "(action (module route) = Some f \<and> handler_args lc ps req = Inr a \<and>
    f a = Returns Undefined \<longrightarrow>
      (\<exists>msg. snd (callRouteAction json isRedirect lc route ps req) = Throws (Error msg) \<and>
             sublist (id' route) msg) \<and>
      (\<forall>r. snd (callRouteAction json isRedirect lc route ps req) \<noteq> Returns r)) \<and>
   (loader (module route) = Some g \<and> handler_args lc ps req = Inr a \<and>
    g a = Returns Undefined \<longrightarrow>
      (\<exists>msg. snd (callRouteLoader json isRedirect href lc route ps req) = Throws (Error msg) \<and>
             sublist (id' route) msg) \<and>
      (\<forall>r. snd (callRouteLoader json isRedirect href lc route ps req) \<noteq> Returns r))"
  by (simp add: callRouteAction_present callRouteLoader_present is_undefined_def
      sublist_action_undefined_message sublist_loader_undefined_message)

theorem undefined_result_throws_error_naming_route_witness:
  "snd (callRouteAction example_json example_isRedirectResponse ()
          (example_route returns_undefined) () example_post_request) =
     Throws (Error (action_undefined_message ''routes/posts'')) \<and>
   sublist ''routes/posts'' (action_undefined_message ''routes/posts'') \<and>
   snd (callRouteLoader example_json example_isRedirectResponse example_href ()
          (example_route returns_undefined) () example_post_request) =
     Throws (Error (loader_undefined_message ''routes/posts'')) \<and>
   sublist ''routes/posts'' (loader_undefined_message ''routes/posts'')"
  using undefined_result_throws_error_naming_route [where route = "example_route returns_undefined"
      and f = returns_undefined and g = returns_undefined
      and json = example_json and isRedirect = example_isRedirectResponse and href = example_href
      and lc = "()" and ps = "()" and req = example_post_request
      and a = "example_args example_post_request"]
    handler_args_example_post handler_args_example_get
  by (simp add: callRouteAction_present callRouteLoader_present example_defs is_undefined_def
      sublist_action_undefined_message sublist_loader_undefined_message)

end
